theory Spec2Isabelle
  imports Main "HOL-Library.Sublist"
begin

section \<open>Library values used by servicectl\<close>

subsection \<open>Go errors and their messages\<close>

text \<open>
  The error values that reach a caller of the package.  \<open>ExitError\<close> is the
  \<^verbatim>\<open>*exec.ExitError\<close> of a subprocess that ran and exited with a non-zero status,
  \<open>ExecFailure\<close> any other error of \<^verbatim>\<open>os/exec\<close> (it carries its message),
  \<open>ErrNotFound\<close> the error of \<^verbatim>\<open>exec.LookPath\<close> for a file that is not on the
  search path.  \<open>Wrapf\<close>, \<open>WithStack\<close> and \<open>Errorf\<close> are the constructors of
  \<^verbatim>\<open>github.com/pkg/errors\<close> that the package calls; the formatted message of
  \<open>Wrapf\<close> is stored already formatted.
\<close>

datatype error =
    ExitError nat
  | ExecFailure string
  | ErrNotFound string
  | Wrapf error string
  | WithStack error
  | Errorf string

definition digit :: "nat \<Rightarrow> char" where
  "digit d = ''0123456789'' ! d"

fun itoa :: "nat \<Rightarrow> string" where
  "itoa n = (if n < 10 then [digit n] else itoa (n div 10) @ [digit (n mod 10)])"

declare itoa.simps [simp del]

text \<open>
  The \<^verbatim>\<open>Error()\<close> method: an exit error prints the process state, a wrapped
  error prints its message, a colon and the message of its cause.
\<close>

fun Error :: "error \<Rightarrow> string" where
  "Error (ExitError n) = ''exit status '' @ itoa n"
| "Error (ExecFailure m) = m"
| "Error (ErrNotFound f) = ''exec: \"'' @ f @ ''\": executable file not found in $PATH''"
| "Error (Wrapf e m) = m @ '': '' @ Error e"
| "Error (WithStack e) = Error e"
| "Error (Errorf m) = m"

subsection \<open>strings.Contains\<close>

fun HasPrefix :: "string \<Rightarrow> string \<Rightarrow> bool" where
  "HasPrefix s [] = True"
| "HasPrefix [] (c # cs) = False"
| "HasPrefix (x # xs) (c # cs) = (x = c \<and> HasPrefix xs cs)"

fun Contains :: "string \<Rightarrow> string \<Rightarrow> bool" where
  "Contains [] substr = (substr = [])"
| "Contains (x # xs) substr = (HasPrefix (x # xs) substr \<or> Contains xs substr)"

subsection \<open>time\<close>

text \<open>A \<^verbatim>\<open>time.Duration\<close> counts nanoseconds.\<close>

definition Millisecond :: nat where
  "Millisecond = 1000000"

section \<open>The operating system\<close>

text \<open>
  What a finished subprocess hands back: its standard output, its standard output
  and standard error interleaved, the error of \<^verbatim>\<open>Cmd.Run\<close> (\<open>None\<close> for exit
  status zero) and the time it took.
\<close>

record proc =
  p_stdout :: string
  p_combined :: string
  p_err :: "error option"
  p_elapsed :: nat

text \<open>
  The host, over a type \<open>'w\<close> of host states.  \<open>os_stat\<close> tells whether
  \<^verbatim>\<open>os.Stat\<close> returns a nil error, \<open>os_look_path\<close> is \<^verbatim>\<open>exec.LookPath\<close>,
  \<open>os_exec\<close> runs a program to completion on an argument vector and may change the
  host, and \<open>os_sleep\<close> gives the time by which a sleep overshoots the requested
  duration (\<^verbatim>\<open>time.Sleep\<close> pauses for at least the duration).
\<close>

record 'w os =
  os_stat :: "'w \<Rightarrow> string \<Rightarrow> bool"
  os_look_path :: "'w \<Rightarrow> string \<Rightarrow> error + string"
  os_exec :: "'w \<Rightarrow> string \<Rightarrow> string list \<Rightarrow> proc \<times> 'w"
  os_sleep :: "'w \<Rightarrow> nat \<Rightarrow> nat \<times> 'w"

datatype event =
    Stat string
  | LookPath string
  | Exec string "string list"
  | Sleep nat

text \<open>
  The state threaded through the program: the host, a monotonic clock in
  nanoseconds, and the calls made so far, oldest first, each with the clock reading
  at which it was issued.
\<close>

record 'w state =
  world :: 'w
  now :: nat
  log :: "(nat \<times> event) list"

definition stat :: "'w os \<Rightarrow> string \<Rightarrow> 'w state \<Rightarrow> bool \<times> 'w state" where
  "stat os path s =
     (os_stat os (world s) path, s\<lparr>log := log s @ [(now s, Stat path)]\<rparr>)"

definition look_path :: "'w os \<Rightarrow> string \<Rightarrow> 'w state \<Rightarrow> (error + string) \<times> 'w state" where
  "look_path os file s =
     (os_look_path os (world s) file, s\<lparr>log := log s @ [(now s, LookPath file)]\<rparr>)"

definition spawn :: "'w os \<Rightarrow> string \<Rightarrow> string list \<Rightarrow> 'w state \<Rightarrow> proc \<times> 'w state" where
  "spawn os c args s =
     (case os_exec os (world s) c args of
        (p, w) \<Rightarrow>
          (p, \<lparr>world = w, now = now s + p_elapsed p, log = log s @ [(now s, Exec c args)]\<rparr>))"

definition CombinedOutput ::
  "'w os \<Rightarrow> string \<Rightarrow> string list \<Rightarrow> 'w state \<Rightarrow> (string \<times> error option) \<times> 'w state" where
  "CombinedOutput os c args s =
     (case spawn os c args s of (p, s') \<Rightarrow> ((p_combined p, p_err p), s'))"

definition Output ::
  "'w os \<Rightarrow> string \<Rightarrow> string list \<Rightarrow> 'w state \<Rightarrow> (string \<times> error option) \<times> 'w state" where
  "Output os c args s =
     (case spawn os c args s of (p, s') \<Rightarrow> ((p_stdout p, p_err p), s'))"

definition sleep :: "'w os \<Rightarrow> nat \<Rightarrow> 'w state \<Rightarrow> 'w state" where
  "sleep os d s =
     (case os_sleep os (world s) d of
        (over, w) \<Rightarrow>
          \<lparr>world = w, now = now s + d + over, log = log s @ [(now s, Sleep d)]\<rparr>)"

section \<open>Package servicectl\<close>

definition run ::
  "'w os \<Rightarrow> string \<Rightarrow> string list \<Rightarrow> 'w state \<Rightarrow> (string \<times> error option) \<times> 'w state" where
  "run os c args s =
     (case CombinedOutput os c args s of
        ((out, err), s') \<Rightarrow>
          (case err of
             Some e \<Rightarrow> ((out, Some (Wrapf e (c @ '' command failed''))), s')
           | None \<Rightarrow> ((out, None), s')))"

text \<open>
  The three structs \<^verbatim>\<open>upstart\<close>, \<^verbatim>\<open>systemd\<close> and \<^verbatim>\<open>sysV\<close> have the same two
  fields; a \<^verbatim>\<open>Service\<close> is one of them.
\<close>

record handle =
  cmd :: string
  name :: string

datatype Service =
    systemd (fields: handle)
  | upstart (fields: handle)
  | sysV (fields: handle)

definition upstart_Start :: "'w os \<Rightarrow> handle \<Rightarrow> 'w state \<Rightarrow> error option \<times> 'w state" where
  "upstart_Start os u s =
     (case run os (cmd u) [''start'', name u] s of ((out, err), s') \<Rightarrow> (err, s'))"

definition upstart_Stop :: "'w os \<Rightarrow> handle \<Rightarrow> 'w state \<Rightarrow> error option \<times> 'w state" where
  "upstart_Stop os u s =
     (case run os (cmd u) [''stop'', name u] s of ((out, err), s') \<Rightarrow> (err, s'))"

definition upstart_Restart :: "'w os \<Rightarrow> handle \<Rightarrow> 'w state \<Rightarrow> error option \<times> 'w state" where
  "upstart_Restart os u s =
     (case upstart_Stop os u s of
        (ignored, s1) \<Rightarrow> upstart_Start os u (sleep os (50 * Millisecond) s1))"

definition systemd_Start :: "'w os \<Rightarrow> handle \<Rightarrow> 'w state \<Rightarrow> error option \<times> 'w state" where
  "systemd_Start os u s =
     (case run os (cmd u) [''start'', name u] s of ((out, err), s') \<Rightarrow> (err, s'))"

definition systemd_Stop :: "'w os \<Rightarrow> handle \<Rightarrow> 'w state \<Rightarrow> error option \<times> 'w state" where
  "systemd_Stop os u s =
     (case run os (cmd u) [''stop'', name u] s of ((out, err), s') \<Rightarrow> (err, s'))"

definition systemd_Restart :: "'w os \<Rightarrow> handle \<Rightarrow> 'w state \<Rightarrow> error option \<times> 'w state" where
  "systemd_Restart os u s =
     (case run os (cmd u) [''restart'', name u] s of ((out, err), s') \<Rightarrow> (err, s'))"

definition sysV_Start :: "'w os \<Rightarrow> handle \<Rightarrow> 'w state \<Rightarrow> error option \<times> 'w state" where
  "sysV_Start os u s =
     (case run os (cmd u) [name u, ''start''] s of ((out, err), s') \<Rightarrow> (err, s'))"

definition sysV_Stop :: "'w os \<Rightarrow> handle \<Rightarrow> 'w state \<Rightarrow> error option \<times> 'w state" where
  "sysV_Stop os u s =
     (case run os (cmd u) [name u, ''stop''] s of ((out, err), s') \<Rightarrow> (err, s'))"

definition sysV_Restart :: "'w os \<Rightarrow> handle \<Rightarrow> 'w state \<Rightarrow> error option \<times> 'w state" where
  "sysV_Restart os u s =
     (case sysV_Stop os u s of
        (Some err, s1) \<Rightarrow> (Some err, s1)
      | (None, s1) \<Rightarrow> sysV_Start os u (sleep os (50 * Millisecond) s1))"

text \<open>The methods of the interface, dispatched on the struct behind it.\<close>

fun Start :: "'w os \<Rightarrow> Service \<Rightarrow> 'w state \<Rightarrow> error option \<times> 'w state" where
  "Start os (systemd u) s = systemd_Start os u s"
| "Start os (upstart u) s = upstart_Start os u s"
| "Start os (sysV u) s = sysV_Start os u s"

fun Stop :: "'w os \<Rightarrow> Service \<Rightarrow> 'w state \<Rightarrow> error option \<times> 'w state" where
  "Stop os (systemd u) s = systemd_Stop os u s"
| "Stop os (upstart u) s = upstart_Stop os u s"
| "Stop os (sysV u) s = sysV_Stop os u s"

fun Restart :: "'w os \<Rightarrow> Service \<Rightarrow> 'w state \<Rightarrow> error option \<times> 'w state" where
  "Restart os (systemd u) s = systemd_Restart os u s"
| "Restart os (upstart u) s = upstart_Restart os u s"
| "Restart os (sysV u) s = sysV_Restart os u s"

definition isSystemd :: "'w os \<Rightarrow> 'w state \<Rightarrow> bool \<times> 'w state" where
  "isSystemd os s =
     (case stat os ''/run/systemd/system'' s of
        (ok, s1) \<Rightarrow> if ok then (True, s1) else (False, s1))"

definition isSysV :: "'w os \<Rightarrow> 'w state \<Rightarrow> bool \<times> 'w state" where
  "isSysV os s =
     (case stat os ''/usr/sbin/service'' s of
        (ok, s1) \<Rightarrow> if ok then (True, s1) else (False, s1))"

definition isUpstart :: "'w os \<Rightarrow> 'w state \<Rightarrow> bool \<times> 'w state" where
  "isUpstart os s =
     (case stat os ''/sbin/upstart-udev-bridge'' s of
        (ok, s1) \<Rightarrow>
          if ok then (True, s1)
          else
            (case stat os ''/sbin/init'' s1 of
               (ok', s2) \<Rightarrow>
                 if ok' then
                   (case Output os ''/sbin/init'' [''--version''] s2 of
                      ((out, err), s3) \<Rightarrow>
                        if err = None then
                          (if Contains out ''init (upstart'' then (True, s3) else (False, s3))
                        else (False, s3))
                 else (False, s2)))"

definition New :: "'w os \<Rightarrow> string \<Rightarrow> 'w state \<Rightarrow> (error + Service) \<times> 'w state" where
  "New os n s =
     (case isSystemd os s of
        (b1, s1) \<Rightarrow>
          if b1 then
            (case look_path os ''systemctl'' s1 of
               (Inl err, s') \<Rightarrow> (Inl (WithStack err), s')
             | (Inr c, s') \<Rightarrow> (Inr (systemd \<lparr>cmd = c, name = n\<rparr>), s'))
          else
            (case isUpstart os s1 of
               (b2, s2) \<Rightarrow>
                 if b2 then
                   (case look_path os ''initctl'' s2 of
                      (Inl err, s') \<Rightarrow> (Inl (WithStack err), s')
                    | (Inr c, s') \<Rightarrow> (Inr (upstart \<lparr>cmd = c, name = n\<rparr>), s'))
                 else
                   (case isSysV os s2 of
                      (b3, s3) \<Rightarrow>
                        if b3 then
                          (case look_path os ''service'' s3 of
                             (Inl err, s') \<Rightarrow> (Inl (WithStack err), s')
                           | (Inr c, s') \<Rightarrow> (Inr (sysV \<lparr>cmd = c, name = n\<rparr>), s'))
                        else (Inl (Errorf ''cannot detect service manager''), s3))))"

section \<open>Observing a run\<close>

text \<open>The subprocesses of a log, in the order they were spawned: program and arguments.\<close>

fun spawned :: "(nat \<times> event) list \<Rightarrow> (string \<times> string list) list" where
  "spawned [] = []"
| "spawned ((t, Exec c args) # es) = (c, args) # spawned es"
| "spawned ((t, Stat p) # es) = spawned es"
| "spawned ((t, LookPath f) # es) = spawned es"
| "spawned ((t, Sleep d) # es) = spawned es"

text \<open>
  The error that \<open>run\<close> builds for a tool that exits with status \<open>k\<close>.
\<close>

definition command_failed :: "string \<Rightarrow> nat \<Rightarrow> error" where
  "command_failed c k = Wrapf (ExitError k) (c @ '' command failed'')"

section \<open>Hosts to run the package on\<close>

text \<open>
  A host given by the paths that exist, the search path as a table from file names to
  resolved executables, and a script: the results of the subprocesses still to come,
  in order.  A subprocess started after the script has run out prints nothing and
  exits with status zero.  Sleeps overshoot by 3 microseconds.
\<close>

definition exited :: "string \<Rightarrow> string \<Rightarrow> nat \<Rightarrow> proc" where
  "exited out combined k =
     \<lparr>p_stdout = out, p_combined = combined,
      p_err = (if k = 0 then None else Some (ExitError k)), p_elapsed = 2000000\<rparr>"

definition scripted :: "string list \<Rightarrow> (string \<times> string) list \<Rightarrow> (proc list) os" where
  "scripted present path =
     \<lparr>os_stat = (\<lambda>w p. p \<in> set present),
      os_look_path = (\<lambda>w f. case map_of path f of None \<Rightarrow> Inl (ErrNotFound f) | Some c \<Rightarrow> Inr c),
      os_exec = (\<lambda>w c args. case w of [] \<Rightarrow> (exited [] [] 0, []) | p # ps \<Rightarrow> (p, ps)),
      os_sleep = (\<lambda>w d. (3000, w))\<rparr>"

definition boot :: "'w \<Rightarrow> 'w state" where
  "boot w = \<lparr>world = w, now = 0, log = []\<rparr>"

definition full_path :: "(string \<times> string) list" where
  "full_path =
     [(''systemctl'', ''/bin/systemctl''), (''initctl'', ''/sbin/initctl''),
      (''service'', ''/usr/sbin/service'')]"

definition web :: handle where
  "web = \<lparr>cmd = ''/sbin/initctl'', name = ''web''\<rparr>"

definition spaced :: handle where
  "spaced = \<lparr>cmd = ''/usr/sbin/service'', name = ''my svc; reboot $(id)''\<rparr>"

text \<open>
  A host whose state is the list of the processes it has started, each with the
  program and the argument vector it received.  As \<^verbatim>\<open>os/exec\<close> does on a POSIX
  system, it refuses a program path or an argument that holds a NUL byte with
  \<^verbatim>\<open>fork/exec <path>: invalid argument\<close> and starts nothing; any other vector is
  started as it is and exits with status zero.
\<close>

definition has_NUL :: "string list \<Rightarrow> bool" where
  "has_NUL argv = (\<exists>a \<in> set argv. CHR 0x00 \<in> set a)"

definition kernel :: "((string \<times> string list) list) os" where
  "kernel =
     \<lparr>os_stat = (\<lambda>w p. False),
      os_look_path = (\<lambda>w f. Inl (ErrNotFound f)),
      os_exec = (\<lambda>w c args.
        if has_NUL (c # args)
        then (\<lparr>p_stdout = [], p_combined = [],
               p_err = Some (ExecFailure (''fork/exec '' @ c @ '': invalid argument'')),
               p_elapsed = 0\<rparr>, w)
        else (exited [] [] 0, w @ [(c, args)])),
      os_sleep = (\<lambda>w d. (0, w))\<rparr>"

definition nul_name :: handle where
  "nul_name = \<lparr>cmd = ''/usr/sbin/service'', name = [CHR ''a'', CHR 0x00, CHR ''b'']\<rparr>"

section \<open>Equations for the primitives\<close>

lemma run_eq:
  "run os c args s =
     ((p_combined (fst (os_exec os (world s) c args)),
       map_option (\<lambda>e. Wrapf e (c @ '' command failed''))
         (p_err (fst (os_exec os (world s) c args)))),
      \<lparr>world = snd (os_exec os (world s) c args),
       now = now s + p_elapsed (fst (os_exec os (world s) c args)),
       log = log s @ [(now s, Exec c args)]\<rparr>)"
  by (simp add: run_def CombinedOutput_def spawn_def split_beta split: option.splits)

lemma Output_eq:
  "Output os c args s =
     ((p_stdout (fst (os_exec os (world s) c args)), p_err (fst (os_exec os (world s) c args))),
      \<lparr>world = snd (os_exec os (world s) c args),
       now = now s + p_elapsed (fst (os_exec os (world s) c args)),
       log = log s @ [(now s, Exec c args)]\<rparr>)"
  by (simp add: Output_def spawn_def split_beta)

lemma sleep_eq:
  "sleep os d s =
     \<lparr>world = snd (os_sleep os (world s) d), now = now s + d + fst (os_sleep os (world s) d),
      log = log s @ [(now s, Sleep d)]\<rparr>"
  by (simp add: sleep_def split_beta)

lemma spawned_append: "spawned (xs @ ys) = spawned xs @ spawned ys"
  by (induction xs rule: spawned.induct) simp_all

lemmas single_step =
  upstart_Start_def upstart_Stop_def systemd_Start_def systemd_Stop_def systemd_Restart_def
  sysV_Start_def sysV_Stop_def

lemma upstart_Restart_eq:
  "upstart_Restart os u s =
     upstart_Start os u (sleep os (50 * Millisecond) (snd (upstart_Stop os u s)))"
  by (simp add: upstart_Restart_def split_beta)

lemma sysV_Restart_eq:
  "sysV_Restart os u s =
     (if fst (sysV_Stop os u s) = None
      then sysV_Start os u (sleep os (50 * Millisecond) (snd (sysV_Stop os u s)))
      else sysV_Stop os u s)"
  by (cases "sysV_Stop os u s") (auto simp add: sysV_Restart_def split: option.splits)

lemmas hosts = scripted_def boot_def exited_def full_path_def web_def spaced_def

section \<open>Detection\<close>

lemma isSystemd_eq:
  "isSystemd os s =
     (os_stat os (world s) ''/run/systemd/system'',
      s\<lparr>log := log s @ [(now s, Stat ''/run/systemd/system'')]\<rparr>)"
  by (simp add: isSystemd_def stat_def)

lemma isSysV_eq:
  "isSysV os s =
     (os_stat os (world s) ''/usr/sbin/service'',
      s\<lparr>log := log s @ [(now s, Stat ''/usr/sbin/service'')]\<rparr>)"
  by (simp add: isSysV_def stat_def)

lemma isUpstart_fst:
  "fst (isUpstart os s) =
     (os_stat os (world s) ''/sbin/upstart-udev-bridge'' \<or>
      (os_stat os (world s) ''/sbin/init'' \<and>
       p_err (fst (os_exec os (world s) ''/sbin/init'' [''--version''])) = None \<and>
       Contains (p_stdout (fst (os_exec os (world s) ''/sbin/init'' [''--version''])))
         ''init (upstart''))"
  by (simp add: isUpstart_def stat_def Output_eq)

lemma isUpstart_world:
  "world (snd (isUpstart os s)) =
     (if \<not> os_stat os (world s) ''/sbin/upstart-udev-bridge'' \<and> os_stat os (world s) ''/sbin/init''
      then snd (os_exec os (world s) ''/sbin/init'' [''--version''])
      else world s)"
  by (simp add: isUpstart_def stat_def Output_eq)

lemma isUpstart_log:
  "log (snd (isUpstart os s)) =
     log s @
     (if os_stat os (world s) ''/sbin/upstart-udev-bridge''
      then [(now s, Stat ''/sbin/upstart-udev-bridge'')]
      else if os_stat os (world s) ''/sbin/init''
      then [(now s, Stat ''/sbin/upstart-udev-bridge''), (now s, Stat ''/sbin/init''),
            (now s, Exec ''/sbin/init'' [''--version''])]
      else [(now s, Stat ''/sbin/upstart-udev-bridge''), (now s, Stat ''/sbin/init'')])"
  by (simp add: isUpstart_def stat_def Output_eq)

lemma New_systemd:
  "fst (isSystemd os s) \<Longrightarrow>
   New os n s =
     (case look_path os ''systemctl'' (snd (isSystemd os s)) of
        (Inl err, s') \<Rightarrow> (Inl (WithStack err), s')
      | (Inr c, s') \<Rightarrow> (Inr (systemd \<lparr>cmd = c, name = n\<rparr>), s'))"
  by (simp add: New_def split_beta)

lemma New_upstart:
  "\<not> fst (isSystemd os s) \<Longrightarrow> fst (isUpstart os (snd (isSystemd os s))) \<Longrightarrow>
   New os n s =
     (case look_path os ''initctl'' (snd (isUpstart os (snd (isSystemd os s)))) of
        (Inl err, s') \<Rightarrow> (Inl (WithStack err), s')
      | (Inr c, s') \<Rightarrow> (Inr (upstart \<lparr>cmd = c, name = n\<rparr>), s'))"
  by (simp add: New_def split_beta)

lemma New_sysV:
  "\<not> fst (isSystemd os s) \<Longrightarrow> \<not> fst (isUpstart os (snd (isSystemd os s))) \<Longrightarrow>
   fst (isSysV os (snd (isUpstart os (snd (isSystemd os s))))) \<Longrightarrow>
   New os n s =
     (case look_path os ''service'' (snd (isSysV os (snd (isUpstart os (snd (isSystemd os s)))))) of
        (Inl err, s') \<Rightarrow> (Inl (WithStack err), s')
      | (Inr c, s') \<Rightarrow> (Inr (sysV \<lparr>cmd = c, name = n\<rparr>), s'))"
  by (simp add: New_def split_beta)

lemma New_none:
  "\<not> fst (isSystemd os s) \<Longrightarrow> \<not> fst (isUpstart os (snd (isSystemd os s))) \<Longrightarrow>
   \<not> fst (isSysV os (snd (isUpstart os (snd (isSystemd os s))))) \<Longrightarrow>
   New os n s =
     (Inl (Errorf ''cannot detect service manager''),
      snd (isSysV os (snd (isUpstart os (snd (isSystemd os s))))))"
  by (simp add: New_def split_beta)

lemma lookup_log:
  "log (snd (case look_path os f s of
               (Inl err, s') \<Rightarrow> (Inl (WithStack err), s')
             | (Inr c, s') \<Rightarrow> (Inr (v c), s'))) = log s @ [(now s, LookPath f)]"
  by (simp add: look_path_def split: sum.splits)

lemma New_spawned:
  "spawned (log (snd (New os n s))) =
     spawned (log s) @
       (if \<not> os_stat os (world s) ''/run/systemd/system'' \<and>
           \<not> os_stat os (world s) ''/sbin/upstart-udev-bridge'' \<and>
           os_stat os (world s) ''/sbin/init''
        then [(''/sbin/init'', [''--version''])]
        else [])"
proof (cases "fst (isSystemd os s)")
  case True
  then show ?thesis
    by (simp add: New_systemd lookup_log spawned_append) (simp add: isSystemd_eq spawned_append)
next
  case a: False
  show ?thesis
  proof (cases "fst (isUpstart os (snd (isSystemd os s)))")
    case True
    with a show ?thesis
      by (simp add: New_upstart lookup_log spawned_append isUpstart_log)
         (auto simp add: isSystemd_eq isUpstart_fst spawned_append)
  next
    case b: False
    show ?thesis
    proof (cases "fst (isSysV os (snd (isUpstart os (snd (isSystemd os s)))))")
      case True
      with a b show ?thesis
        by (simp add: New_sysV lookup_log spawned_append isSysV_eq isUpstart_log)
           (auto simp add: isSystemd_eq spawned_append)
    next
      case False
      with a b show ?thesis
        by (simp add: New_none spawned_append isSysV_eq isUpstart_log)
           (auto simp add: isSystemd_eq spawned_append)
    qed
  qed
qed

section \<open>strings.Contains is the substring relation\<close>

lemma HasPrefix_prefix: "HasPrefix s p = prefix p s"
  by (induction s p rule: HasPrefix.induct) auto

lemma Contains_sublist: "Contains s substr = sublist substr s"
  by (induction s) (simp_all add: HasPrefix_prefix sublist_Cons_right)

lemma Contains_append: "Contains (a @ b) a"
  by (simp add: Contains_sublist)

section \<open>Claims\<close>

text \<open>
  C1.  Detection tries systemd first, then upstart, then SysV, and the first check that
  succeeds decides which tool is looked up and which struct is built.  When the systemd
  marker \<^verbatim>\<open>/run/systemd/system\<close> exists, whatever else exists (the upstart marker in
  particular), \<open>New\<close> makes exactly two calls, the stat of the marker and the lookup
  of \<^verbatim>\<open>systemctl\<close>, and returns the systemd struct for the resolved path (the error of
  the lookup when \<^verbatim>\<open>systemctl\<close> is not on the search path).  Upstart is chosen when
  the systemd check fails and the upstart check succeeds, SysV when both fail and the
  SysV check succeeds.
\<close>

theorem New_priority:
  "(os_stat os (world s) ''/run/systemd/system'' \<longrightarrow>
      fst (New os n s) =
        (case os_look_path os (world s) ''systemctl'' of
           Inl err \<Rightarrow> Inl (WithStack err)
         | Inr c \<Rightarrow> Inr (systemd \<lparr>cmd = c, name = n\<rparr>)) \<and>
      log (snd (New os n s)) =
        log s @ [(now s, Stat ''/run/systemd/system''), (now s, LookPath ''systemctl'')]) \<and>
   (\<not> os_stat os (world s) ''/run/systemd/system'' \<and>
    fst (isUpstart os (snd (isSystemd os s))) \<longrightarrow>
      fst (New os n s) =
        (case os_look_path os (world (snd (isUpstart os (snd (isSystemd os s))))) ''initctl'' of
           Inl err \<Rightarrow> Inl (WithStack err)
         | Inr c \<Rightarrow> Inr (upstart \<lparr>cmd = c, name = n\<rparr>))) \<and>
   (\<not> os_stat os (world s) ''/run/systemd/system'' \<and>
    \<not> fst (isUpstart os (snd (isSystemd os s))) \<and>
    os_stat os (world (snd (isUpstart os (snd (isSystemd os s))))) ''/usr/sbin/service'' \<longrightarrow>
      fst (New os n s) =
        (case os_look_path os (world (snd (isUpstart os (snd (isSystemd os s))))) ''service'' of
           Inl err \<Rightarrow> Inl (WithStack err)
         | Inr c \<Rightarrow> Inr (sysV \<lparr>cmd = c, name = n\<rparr>)))"
proof (intro conjI impI)
  assume m: "os_stat os (world s) ''/run/systemd/system''"
  then have sel: "fst (isSystemd os s)"
    by (simp add: isSystemd_eq)
  show "fst (New os n s) =
        (case os_look_path os (world s) ''systemctl'' of
           Inl err \<Rightarrow> Inl (WithStack err)
         | Inr c \<Rightarrow> Inr (systemd \<lparr>cmd = c, name = n\<rparr>))"
    by (simp add: New_systemd [OF sel] look_path_def isSystemd_eq split: sum.splits)
  show "log (snd (New os n s)) =
        log s @ [(now s, Stat ''/run/systemd/system''), (now s, LookPath ''systemctl'')]"
    by (simp add: New_systemd [OF sel] look_path_def isSystemd_eq split: sum.splits)
next
  assume "\<not> os_stat os (world s) ''/run/systemd/system'' \<and>
    fst (isUpstart os (snd (isSystemd os s)))"
  then have a: "\<not> fst (isSystemd os s)" and b: "fst (isUpstart os (snd (isSystemd os s)))"
    by (simp_all add: isSystemd_eq)
  show "fst (New os n s) =
        (case os_look_path os (world (snd (isUpstart os (snd (isSystemd os s))))) ''initctl'' of
           Inl err \<Rightarrow> Inl (WithStack err)
         | Inr c \<Rightarrow> Inr (upstart \<lparr>cmd = c, name = n\<rparr>))"
    by (simp add: New_upstart [OF a b] look_path_def split: sum.splits)
next
  assume "\<not> os_stat os (world s) ''/run/systemd/system'' \<and>
    \<not> fst (isUpstart os (snd (isSystemd os s))) \<and>
    os_stat os (world (snd (isUpstart os (snd (isSystemd os s))))) ''/usr/sbin/service''"
  then have a: "\<not> fst (isSystemd os s)"
    and b: "\<not> fst (isUpstart os (snd (isSystemd os s)))"
    and c: "fst (isSysV os (snd (isUpstart os (snd (isSystemd os s)))))"
    by (simp_all add: isSystemd_eq isSysV_eq)
  show "fst (New os n s) =
        (case os_look_path os (world (snd (isUpstart os (snd (isSystemd os s))))) ''service'' of
           Inl err \<Rightarrow> Inl (WithStack err)
         | Inr c \<Rightarrow> Inr (sysV \<lparr>cmd = c, name = n\<rparr>))"
    by (simp add: New_sysV [OF a b c] look_path_def isSysV_eq split: sum.splits)
qed

text \<open>
  Three hosts: one with the markers of all three backends, one with the upstart and
  SysV markers, one with the SysV marker alone.
\<close>

theorem New_priority_witness:
  "(os_stat (scripted [''/run/systemd/system'', ''/sbin/upstart-udev-bridge'', ''/usr/sbin/service'']
       full_path) (world (boot [])) ''/run/systemd/system'' \<and>
    os_stat (scripted [''/run/systemd/system'', ''/sbin/upstart-udev-bridge'', ''/usr/sbin/service'']
       full_path) (world (boot [])) ''/sbin/upstart-udev-bridge'' \<and>
    fst (New (scripted [''/run/systemd/system'', ''/sbin/upstart-udev-bridge'', ''/usr/sbin/service'']
       full_path) ''web'' (boot [])) = Inr (systemd \<lparr>cmd = ''/bin/systemctl'', name = ''web''\<rparr>)) \<and>
   (\<not> os_stat (scripted [''/sbin/upstart-udev-bridge'', ''/usr/sbin/service''] full_path)
       (world (boot [])) ''/run/systemd/system'' \<and>
    fst (New (scripted [''/sbin/upstart-udev-bridge'', ''/usr/sbin/service''] full_path)
       ''web'' (boot [])) = Inr (upstart \<lparr>cmd = ''/sbin/initctl'', name = ''web''\<rparr>)) \<and>
   (\<not> os_stat (scripted [''/usr/sbin/service''] full_path) (world (boot [])) ''/run/systemd/system'' \<and>
    fst (New (scripted [''/usr/sbin/service''] full_path) ''web'' (boot []))
      = Inr (sysV \<lparr>cmd = ''/usr/sbin/service'', name = ''web''\<rparr>))"
  using
    New_priority [of "scripted [''/run/systemd/system'', ''/sbin/upstart-udev-bridge'', ''/usr/sbin/service''] full_path"
      "boot []" "''web''"]
    New_priority [of "scripted [''/sbin/upstart-udev-bridge'', ''/usr/sbin/service''] full_path"
      "boot []" "''web''"]
    New_priority [of "scripted [''/usr/sbin/service''] full_path" "boot []" "''web''"]
  by (simp add: isUpstart_fst isUpstart_world isSystemd_eq hosts)

text \<open>
  C2.  The argument vectors of Start and Stop: systemd and upstart run the resolved
  binary on the subcommand followed by the name, SysV runs it on the name followed by
  the subcommand.  Each call adds exactly that one subprocess to the log.
\<close>

theorem argument_vectors:
  "log (snd (systemd_Start os u s)) = log s @ [(now s, Exec (cmd u) [''start'', name u])] \<and>
   log (snd (systemd_Stop os u s)) = log s @ [(now s, Exec (cmd u) [''stop'', name u])] \<and>
   log (snd (upstart_Start os u s)) = log s @ [(now s, Exec (cmd u) [''start'', name u])] \<and>
   log (snd (upstart_Stop os u s)) = log s @ [(now s, Exec (cmd u) [''stop'', name u])] \<and>
   log (snd (sysV_Start os u s)) = log s @ [(now s, Exec (cmd u) [name u, ''start''])] \<and>
   log (snd (sysV_Stop os u s)) = log s @ [(now s, Exec (cmd u) [name u, ''stop''])]"
  by (simp add: single_step run_eq)

theorem argument_vectors_witness:
  "log (snd (upstart_Start (scripted [] full_path) web (boot []))) =
     [(0, Exec ''/sbin/initctl'' [''start'', ''web''])] \<and>
   log (snd (sysV_Start (scripted [] full_path) spaced (boot []))) =
     [(0, Exec ''/usr/sbin/service'' [''my svc; reboot $(id)'', ''start''])]"
  using argument_vectors [of "scripted [] full_path" web "boot []"]
    argument_vectors [of "scripted [] full_path" spaced "boot []"]
  by (simp add: boot_def web_def spaced_def)

text \<open>
  C3.  SysV Restart: when the stop step fails, Restart returns the error of the stop
  step and ends in the state the stop step left, so the only subprocess it started
  is the stop; there is no sleep and no start.
\<close>

theorem sysV_Restart_stop_fails:
  "fst (sysV_Stop os u s) = Some e \<Longrightarrow>
   sysV_Restart os u s = (Some e, snd (sysV_Stop os u s)) \<and>
   log (snd (sysV_Restart os u s)) = log s @ [(now s, Exec (cmd u) [name u, ''stop''])]"
  by (simp add: sysV_Restart_eq prod_eq_iff) (simp add: sysV_Stop_def run_eq)

theorem sysV_Restart_stop_fails_witness:
  "fst (sysV_Stop (scripted [] full_path) spaced (boot [exited [] ''unrecognized service'' 1])) =
     Some (Wrapf (ExitError 1) ''/usr/sbin/service command failed'') \<and>
   fst (sysV_Restart (scripted [] full_path) spaced (boot [exited [] ''unrecognized service'' 1])) =
     Some (Wrapf (ExitError 1) ''/usr/sbin/service command failed'') \<and>
   spawned (log (snd (sysV_Restart (scripted [] full_path) spaced
       (boot [exited [] ''unrecognized service'' 1])))) =
     [(''/usr/sbin/service'', [''my svc; reboot $(id)'', ''stop''])]"
proof -
  have failing:
    "fst (sysV_Stop (scripted [] full_path) spaced (boot [exited [] ''unrecognized service'' 1])) =
       Some (Wrapf (ExitError 1) ''/usr/sbin/service command failed'')"
    by (simp add: sysV_Stop_def run_eq hosts)
  from sysV_Restart_stop_fails [OF failing] failing show ?thesis
    by (simp add: sysV_Stop_def run_eq hosts)
qed

text \<open>
  C4.  Upstart Restart: the result of the stop step is dropped; whatever it was, the
  start step runs after the sleep, and the result of Restart is the result of that
  start step.  Restart returns no error exactly when the start subprocess exits with
  status zero, and the subprocesses it started are the stop and then the start.
\<close>

theorem upstart_Restart_result:
  "fst (upstart_Restart os u s) =
     fst (upstart_Start os u (sleep os (50 * Millisecond) (snd (upstart_Stop os u s)))) \<and>
   (fst (upstart_Restart os u s) = None \<longleftrightarrow>
     p_err (fst (os_exec os (world (sleep os (50 * Millisecond) (snd (upstart_Stop os u s))))
       (cmd u) [''start'', name u])) = None) \<and>
   spawned (log (snd (upstart_Restart os u s))) =
     spawned (log s) @ [(cmd u, [''stop'', name u]), (cmd u, [''start'', name u])]"
  by (simp add: upstart_Restart_eq) (simp add: single_step run_eq sleep_eq spawned_append)

theorem upstart_Restart_result_witness:
  "fst (upstart_Stop (scripted [] full_path) web (boot [exited [] ''stop: Unknown instance'' 1])) =
     Some (Wrapf (ExitError 1) ''/sbin/initctl command failed'') \<and>
   fst (upstart_Restart (scripted [] full_path) web (boot [exited [] ''stop: Unknown instance'' 1])) =
     None \<and>
   spawned (log (snd (upstart_Restart (scripted [] full_path) web
       (boot [exited [] ''stop: Unknown instance'' 1])))) =
     [(''/sbin/initctl'', [''stop'', ''web'']), (''/sbin/initctl'', [''start'', ''web''])]"
  using upstart_Restart_result [of "scripted [] full_path" web
      "boot [exited [] ''stop: Unknown instance'' 1]"]
  by (simp add: single_step run_eq sleep_eq hosts)

text \<open>
  C5 as stated does not hold: \<open>run\<close> returns the captured output next to the
  error, every operation discards it, and the error wraps only the error of the
  subprocess.  Here \<^verbatim>\<open>initctl\<close> prints \<^verbatim>\<open>boom\<close> and exits with status 1; the
  error of Start reads \<^verbatim>\<open>/sbin/initctl command failed: exit status 1\<close>.  On the
  same host the upstart Restart, whose stop step is that failing subprocess, returns
  no error at all.
\<close>

theorem error_omits_output:
  "p_err (fst (os_exec (scripted [] full_path) (world (boot [exited [] ''boom'' 1]))
       ''/sbin/initctl'' [''start'', ''web''])) = Some (ExitError 1) \<and>
   p_combined (fst (os_exec (scripted [] full_path) (world (boot [exited [] ''boom'' 1]))
       ''/sbin/initctl'' [''start'', ''web''])) = ''boom'' \<and>
   fst (Start (scripted [] full_path) (upstart web) (boot [exited [] ''boom'' 1])) =
     Some (Wrapf (ExitError 1) ''/sbin/initctl command failed'') \<and>
   Error (Wrapf (ExitError 1) ''/sbin/initctl command failed'') =
     ''/sbin/initctl command failed: exit status 1'' \<and>
   \<not> Contains (Error (Wrapf (ExitError 1) ''/sbin/initctl command failed'')) ''boom'' \<and>
   fst (Restart (scripted [] full_path) (upstart web) (boot [exited [] ''boom'' 1])) = None"
  by (simp add: upstart_Restart_eq single_step run_eq sleep_eq hosts itoa.simps digit_def)

text \<open>
  C5, amended.  When the tool exits with non-zero status \<open>k\<close>, the operation returns
  the exit error wrapped with the message \<^verbatim>\<open><bin> command failed\<close>, whose text is
  \<^verbatim>\<open><bin> command failed: exit status k\<close>: it holds the resolved path of the tool and
  the exit status, and nothing of the captured output.  This holds for Start and Stop
  on every backend, for Restart on systemd, for either step of Restart on SysV, and
  for the start step of Restart on upstart.
\<close>

theorem error_names_tool:
  "((op = Start \<and> sub = ''start'' \<or> op = Stop \<and> sub = ''stop'' \<or>
     op = Restart \<and> sub = ''restart'' \<and> (\<exists>u. h = systemd u)) \<and>
    p_err (fst (os_exec os (world s) (cmd (fields h))
       (case h of sysV u \<Rightarrow> [name u, sub] | systemd u \<Rightarrow> [sub, name u]
        | upstart u \<Rightarrow> [sub, name u]))) = Some (ExitError k) \<longrightarrow>
      fst (op os h s) = Some (command_failed (cmd (fields h)) k)) \<and>
   (p_err (fst (os_exec os (world s) (cmd u) [name u, ''stop''])) = Some (ExitError k) \<longrightarrow>
      fst (sysV_Restart os u s) = Some (command_failed (cmd u) k)) \<and>
   (p_err (fst (os_exec os (world s) (cmd u) [name u, ''stop''])) = None \<and>
    p_err (fst (os_exec os (world (sleep os (50 * Millisecond) (snd (sysV_Stop os u s))))
       (cmd u) [name u, ''start''])) = Some (ExitError k) \<longrightarrow>
      fst (sysV_Restart os u s) = Some (command_failed (cmd u) k)) \<and>
   (p_err (fst (os_exec os (world (sleep os (50 * Millisecond) (snd (upstart_Stop os u s))))
       (cmd u) [''start'', name u])) = Some (ExitError k) \<longrightarrow>
      fst (upstart_Restart os u s) = Some (command_failed (cmd u) k)) \<and>
   Error (command_failed c k) = c @ '' command failed: exit status '' @ itoa k \<and>
   Contains (Error (command_failed c k)) c"
proof (intro conjI impI)
  assume "(op = Start \<and> sub = ''start'' \<or> op = Stop \<and> sub = ''stop'' \<or>
     op = Restart \<and> sub = ''restart'' \<and> (\<exists>u. h = systemd u)) \<and>
    p_err (fst (os_exec os (world s) (cmd (fields h))
       (case h of sysV u \<Rightarrow> [name u, sub] | systemd u \<Rightarrow> [sub, name u]
        | upstart u \<Rightarrow> [sub, name u]))) = Some (ExitError k)"
  then show "fst (op os h s) = Some (command_failed (cmd (fields h)) k)"
    by (cases h) (auto simp add: single_step run_eq command_failed_def)
next
  assume "p_err (fst (os_exec os (world s) (cmd u) [name u, ''stop''])) = Some (ExitError k)"
  then show "fst (sysV_Restart os u s) = Some (command_failed (cmd u) k)"
    by (simp add: sysV_Restart_eq sysV_Stop_def run_eq command_failed_def)
next
  assume "p_err (fst (os_exec os (world s) (cmd u) [name u, ''stop''])) = None \<and>
    p_err (fst (os_exec os (world (sleep os (50 * Millisecond) (snd (sysV_Stop os u s))))
       (cmd u) [name u, ''start''])) = Some (ExitError k)"
  then show "fst (sysV_Restart os u s) = Some (command_failed (cmd u) k)"
    by (simp add: sysV_Restart_eq sysV_Stop_def sysV_Start_def run_eq command_failed_def)
next
  assume "p_err (fst (os_exec os (world (sleep os (50 * Millisecond) (snd (upstart_Stop os u s))))
       (cmd u) [''start'', name u])) = Some (ExitError k)"
  then show "fst (upstart_Restart os u s) = Some (command_failed (cmd u) k)"
    by (simp add: upstart_Restart_eq upstart_Start_def run_eq command_failed_def)
next
  show "Error (command_failed c k) = c @ '' command failed: exit status '' @ itoa k"
    by (simp add: command_failed_def)
  show "Contains (Error (command_failed c k)) c"
    using Contains_append [of c "'' command failed: exit status '' @ itoa k"]
    by (simp add: command_failed_def)
qed

text \<open>
  A failing Stop on SysV; a SysV Restart whose stop fails, and one whose start fails;
  an upstart Restart whose start fails after a stop that failed too.
\<close>

theorem error_names_tool_witness:
  "fst (Stop (scripted [] full_path) (sysV spaced) (boot [exited [] ''boom'' 3])) =
     Some (command_failed ''/usr/sbin/service'' 3) \<and>
   fst (sysV_Restart (scripted [] full_path) spaced (boot [exited [] ''boom'' 3])) =
     Some (command_failed ''/usr/sbin/service'' 3) \<and>
   fst (sysV_Restart (scripted [] full_path) spaced (boot [exited [] [] 0, exited [] ''boom'' 3])) =
     Some (command_failed ''/usr/sbin/service'' 3) \<and>
   fst (upstart_Restart (scripted [] full_path) web (boot [exited [] ''x'' 1, exited [] ''boom'' 3])) =
     Some (command_failed ''/sbin/initctl'' 3) \<and>
   Error (command_failed ''/usr/sbin/service'' 3) =
     ''/usr/sbin/service command failed: exit status 3'' \<and>
   Contains (Error (command_failed ''/usr/sbin/service'' 3)) ''/usr/sbin/service''"
  using
    error_names_tool [of Stop "''stop''" "sysV spaced" "scripted [] full_path"
      "boot [exited [] ''boom'' 3]" 3 spaced "''/usr/sbin/service''"]
    error_names_tool [of Stop "''stop''" "sysV spaced" "scripted [] full_path"
      "boot [exited [] [] 0, exited [] ''boom'' 3]" 3 spaced "''/usr/sbin/service''"]
    error_names_tool [of Stop "''stop''" "sysV spaced" "scripted [] full_path"
      "boot [exited [] ''x'' 1, exited [] ''boom'' 3]" 3 web "''/usr/sbin/service''"]
  by (simp add: single_step run_eq sleep_eq hosts itoa.simps digit_def)

text \<open>
  C6 as stated does not hold: the upstart Restart is a stop and a start, two
  subprocesses in one call.
\<close>

theorem upstart_Restart_spawns_two:
  "spawned (log (boot [])) = [] \<and>
   spawned (log (snd (Restart (scripted [] full_path) (upstart web) (boot [])))) =
     [(''/sbin/initctl'', [''stop'', ''web'']), (''/sbin/initctl'', [''start'', ''web''])] \<and>
   length (spawned (log (snd (Restart (scripted [] full_path) (upstart web) (boot []))))) \<noteq>
     length (spawned (log (boot []))) + 1"
  by (simp add: upstart_Restart_eq single_step run_eq sleep_eq hosts)

text \<open>
  C6, amended.  Start and Stop on every backend, and Restart on systemd, start exactly
  one subprocess in a call.  Restart on upstart starts exactly two.  Restart on SysV
  starts two when the stop step succeeds and one when it fails.
\<close>

theorem subprocesses_per_call:
  "length (spawned (log (snd (Start os h s)))) = length (spawned (log s)) + 1 \<and>
   length (spawned (log (snd (Stop os h s)))) = length (spawned (log s)) + 1 \<and>
   length (spawned (log (snd (Restart os h s)))) =
     length (spawned (log s)) +
       (case h of
          systemd u \<Rightarrow> 1
        | upstart u \<Rightarrow> 2
        | sysV u \<Rightarrow> if fst (sysV_Stop os u s) = None then 2 else 1)"
proof (cases h)
  case (systemd u)
  then show ?thesis
    by (simp add: single_step run_eq spawned_append)
next
  case (upstart u)
  then show ?thesis
    by (simp add: upstart_Restart_eq single_step run_eq sleep_eq spawned_append)
next
  case (sysV u)
  then show ?thesis
    by (simp add: sysV_Restart_eq single_step run_eq sleep_eq spawned_append)
qed

theorem subprocesses_per_call_witness:
  "length (spawned (log (snd (Start (scripted [] full_path) (sysV spaced) (boot []))))) = 1 \<and>
   length (spawned (log (snd (Stop (scripted [] full_path) (sysV spaced) (boot []))))) = 1 \<and>
   length (spawned (log (snd (Restart (scripted [] full_path) (sysV spaced) (boot []))))) = 2 \<and>
   length (spawned (log (snd (Restart (scripted [] full_path) (sysV spaced)
      (boot [exited [] ''boom'' 1]))))) = 1"
  using subprocesses_per_call [of "scripted [] full_path" "sysV spaced" "boot []"]
    subprocesses_per_call [of "scripted [] full_path" "sysV spaced" "boot [exited [] ''boom'' 1]"]
  by (simp add: sysV_Stop_def run_eq hosts)

text \<open>
  C7.  When the systemd marker is missing, the upstart bridge binary is missing, the
  init binary is missing or its \<^verbatim>\<open>--version\<close> run fails or prints no
  \<^verbatim>\<open>init (upstart\<close>, and the \<^verbatim>\<open>service\<close> binary is missing at the time it is
  looked for, \<open>New\<close> returns no handle and the error
  \<^verbatim>\<open>cannot detect service manager\<close>.
\<close>

theorem New_detection_fails:
  assumes "\<not> os_stat os (world s) ''/run/systemd/system''"
    and "\<not> os_stat os (world s) ''/sbin/upstart-udev-bridge''"
    and "os_stat os (world s) ''/sbin/init'' \<longrightarrow>
           p_err (fst (os_exec os (world s) ''/sbin/init'' [''--version''])) \<noteq> None \<or>
           \<not> Contains (p_stdout (fst (os_exec os (world s) ''/sbin/init'' [''--version''])))
               ''init (upstart''"
    and "\<not> os_stat os
             (if os_stat os (world s) ''/sbin/init''
              then snd (os_exec os (world s) ''/sbin/init'' [''--version''])
              else world s)
             ''/usr/sbin/service''"
  shows "fst (New os n s) = Inl (Errorf ''cannot detect service manager'') \<and>
         Error (Errorf ''cannot detect service manager'') = ''cannot detect service manager''"
proof -
  have a: "\<not> fst (isSystemd os s)"
    using assms(1) by (simp add: isSystemd_eq)
  have b: "\<not> fst (isUpstart os (snd (isSystemd os s)))"
    using assms(2,3) by (simp add: isUpstart_fst isSystemd_eq)
  have c: "\<not> fst (isSysV os (snd (isUpstart os (snd (isSystemd os s)))))"
    using assms(2,4) by (simp add: isSysV_eq isUpstart_world isSystemd_eq split: if_splits)
  show ?thesis
    by (simp add: New_none [OF a b c])
qed

text \<open>A host with a SysV init that answers \<^verbatim>\<open>--version\<close>, and nothing else.\<close>

theorem New_detection_fails_witness:
  "os_stat (scripted [''/sbin/init''] full_path)
     (world (boot [exited ''SysV init version: 2.88'' ''SysV init version: 2.88'' 0])) ''/sbin/init'' \<and>
   fst (New (scripted [''/sbin/init''] full_path) ''web''
     (boot [exited ''SysV init version: 2.88'' ''SysV init version: 2.88'' 0])) =
     Inl (Errorf ''cannot detect service manager'')"
proof -
  let ?os = "scripted [''/sbin/init''] full_path"
  let ?s = "boot [exited ''SysV init version: 2.88'' ''SysV init version: 2.88'' 0]"
  have a: "\<not> os_stat ?os (world ?s) ''/run/systemd/system''"
    by (simp add: hosts)
  have b: "\<not> os_stat ?os (world ?s) ''/sbin/upstart-udev-bridge''"
    by (simp add: hosts)
  have c: "os_stat ?os (world ?s) ''/sbin/init'' \<longrightarrow>
           p_err (fst (os_exec ?os (world ?s) ''/sbin/init'' [''--version''])) \<noteq> None \<or>
           \<not> Contains (p_stdout (fst (os_exec ?os (world ?s) ''/sbin/init'' [''--version''])))
               ''init (upstart''"
    by (simp add: hosts)
  have d: "\<not> os_stat ?os
             (if os_stat ?os (world ?s) ''/sbin/init''
              then snd (os_exec ?os (world ?s) ''/sbin/init'' [''--version''])
              else world ?s)
             ''/usr/sbin/service''"
    by (simp add: hosts)
  have e: "os_stat ?os (world ?s) ''/sbin/init''"
    by (simp add: hosts)
  from New_detection_fails [OF a b c d, of "''web''"] e show ?thesis
    by simp
qed

text \<open>
  C8 as stated does not hold: the output of \<^verbatim>\<open>/sbin/init --version\<close> counts only
  when the run returned no error.  Here the bridge binary is missing, the init binary
  exists and prints \<^verbatim>\<open>init (upstart 1.12.1)\<close>, but exits with status 1: upstart is
  not detected.
\<close>

theorem isUpstart_ignores_failed_run:
  "\<not> (fst (isUpstart (scripted [''/sbin/init''] full_path)
           (boot [exited ''init (upstart 1.12.1)'' ''init (upstart 1.12.1)'' 1])) \<longleftrightarrow>
       (os_stat (scripted [''/sbin/init''] full_path)
          (world (boot [exited ''init (upstart 1.12.1)'' ''init (upstart 1.12.1)'' 1]))
          ''/sbin/upstart-udev-bridge'' \<or>
        (os_stat (scripted [''/sbin/init''] full_path)
           (world (boot [exited ''init (upstart 1.12.1)'' ''init (upstart 1.12.1)'' 1]))
           ''/sbin/init'' \<and>
         Contains (p_stdout (fst (os_exec (scripted [''/sbin/init''] full_path)
           (world (boot [exited ''init (upstart 1.12.1)'' ''init (upstart 1.12.1)'' 1]))
           ''/sbin/init'' [''--version''])))
           ''init (upstart'')))"
  by (simp add: isUpstart_fst hosts)

text \<open>
  C8, amended.  Upstart is detected if and only if the bridge binary exists, or the
  init binary exists and its \<^verbatim>\<open>--version\<close> run returns no error and its standard
  output contains \<^verbatim>\<open>init (upstart\<close>.  \<open>isUpstart\<close> starts the subprocess
  \<^verbatim>\<open>/sbin/init --version\<close> exactly when the bridge binary is missing and the init
  binary exists, and starts no other subprocess.  In \<open>New\<close> as a whole that is the
  only subprocess, started exactly when in addition the systemd marker is missing.
\<close>

theorem isUpstart_iff:
  "(fst (isUpstart os s) \<longleftrightarrow>
      os_stat os (world s) ''/sbin/upstart-udev-bridge'' \<or>
      (os_stat os (world s) ''/sbin/init'' \<and>
       p_err (fst (os_exec os (world s) ''/sbin/init'' [''--version''])) = None \<and>
       Contains (p_stdout (fst (os_exec os (world s) ''/sbin/init'' [''--version''])))
         ''init (upstart'')) \<and>
   spawned (log (snd (isUpstart os s))) =
     spawned (log s) @
       (if \<not> os_stat os (world s) ''/sbin/upstart-udev-bridge'' \<and> os_stat os (world s) ''/sbin/init''
        then [(''/sbin/init'', [''--version''])]
        else []) \<and>
   spawned (log (snd (New os n s))) =
     spawned (log s) @
       (if \<not> os_stat os (world s) ''/run/systemd/system'' \<and>
           \<not> os_stat os (world s) ''/sbin/upstart-udev-bridge'' \<and>
           os_stat os (world s) ''/sbin/init''
        then [(''/sbin/init'', [''--version''])]
        else [])"
  by (simp add: isUpstart_fst isUpstart_log spawned_append New_spawned)

theorem isUpstart_iff_witness:
  "fst (isUpstart (scripted [''/sbin/init''] full_path)
     (boot [exited ''init (upstart 1.12.1)'' ''init (upstart 1.12.1)'' 0])) \<and>
   spawned (log (snd (isUpstart (scripted [''/sbin/init''] full_path)
     (boot [exited ''init (upstart 1.12.1)'' ''init (upstart 1.12.1)'' 0])))) =
     [(''/sbin/init'', [''--version''])] \<and>
   fst (isUpstart (scripted [''/sbin/upstart-udev-bridge'', ''/sbin/init''] full_path) (boot [])) \<and>
   spawned (log (snd (isUpstart (scripted [''/sbin/upstart-udev-bridge'', ''/sbin/init''] full_path)
     (boot [])))) = []"
  using isUpstart_iff [of "scripted [''/sbin/init''] full_path"
      "boot [exited ''init (upstart 1.12.1)'' ''init (upstart 1.12.1)'' 0]" "''web''"]
    isUpstart_iff [of "scripted [''/sbin/upstart-udev-bridge'', ''/sbin/init''] full_path" "boot []"
      "''web''"]
  by (simp add: hosts)

text \<open>
  C9.  Time is the clock of the state, in nanoseconds; a subprocess advances it by the
  time it took and a sleep by at least the requested duration.  In the upstart
  Restart the only call between the end of the stop step and the start subprocess is
  a sleep of 50 milliseconds, issued when the stop step ends, and the start
  subprocess is issued at least 50 milliseconds after that.  The same holds for the
  SysV Restart whenever it starts a start subprocess at all, that is when the stop
  step returned no error.
\<close>

theorem Restart_pause:
  "(\<exists>t \<ge> now (snd (upstart_Stop os u s)) + 50000000.
      log (snd (upstart_Restart os u s)) =
        log (snd (upstart_Stop os u s)) @
          [(now (snd (upstart_Stop os u s)), Sleep 50000000),
           (t, Exec (cmd u) [''start'', name u])]) \<and>
   now (snd (upstart_Stop os u s)) =
     now s + p_elapsed (fst (os_exec os (world s) (cmd u) [''stop'', name u])) \<and>
   (fst (sysV_Stop os u s) = None \<longrightarrow>
     (\<exists>t \<ge> now (snd (sysV_Stop os u s)) + 50000000.
        log (snd (sysV_Restart os u s)) =
          log (snd (sysV_Stop os u s)) @
            [(now (snd (sysV_Stop os u s)), Sleep 50000000),
             (t, Exec (cmd u) [name u, ''start''])])) \<and>
   now (snd (sysV_Stop os u s)) =
     now s + p_elapsed (fst (os_exec os (world s) (cmd u) [name u, ''stop'']))"
proof (intro conjI impI)
  show "\<exists>t \<ge> now (snd (upstart_Stop os u s)) + 50000000.
      log (snd (upstart_Restart os u s)) =
        log (snd (upstart_Stop os u s)) @
          [(now (snd (upstart_Stop os u s)), Sleep 50000000),
           (t, Exec (cmd u) [''start'', name u])]"
    by (rule exI [of _ "now (snd (upstart_Stop os u s)) + 50000000 +
          fst (os_sleep os (world (snd (upstart_Stop os u s))) 50000000)"])
       (simp add: upstart_Restart_eq upstart_Start_def run_eq sleep_eq Millisecond_def)
  show "now (snd (upstart_Stop os u s)) =
     now s + p_elapsed (fst (os_exec os (world s) (cmd u) [''stop'', name u]))"
    by (simp add: upstart_Stop_def run_eq)
  show "now (snd (sysV_Stop os u s)) =
     now s + p_elapsed (fst (os_exec os (world s) (cmd u) [name u, ''stop'']))"
    by (simp add: sysV_Stop_def run_eq)
next
  assume ok: "fst (sysV_Stop os u s) = None"
  show "\<exists>t \<ge> now (snd (sysV_Stop os u s)) + 50000000.
        log (snd (sysV_Restart os u s)) =
          log (snd (sysV_Stop os u s)) @
            [(now (snd (sysV_Stop os u s)), Sleep 50000000),
             (t, Exec (cmd u) [name u, ''start''])]"
    by (rule exI [of _ "now (snd (sysV_Stop os u s)) + 50000000 +
          fst (os_sleep os (world (snd (sysV_Stop os u s))) 50000000)"])
       (simp add: sysV_Restart_eq ok sysV_Start_def run_eq sleep_eq Millisecond_def)
qed

text \<open>
  On the scripted host a subprocess takes 2 ms and a sleep overshoots by 3 \<mu>s: the
  stop ends at 2 ms and the start is issued at 52.003 ms.
\<close>

theorem Restart_pause_witness:
  "log (snd (upstart_Restart (scripted [] full_path) web (boot []))) =
     [(0, Exec ''/sbin/initctl'' [''stop'', ''web'']), (2000000, Sleep 50000000),
      (52003000, Exec ''/sbin/initctl'' [''start'', ''web''])] \<and>
   fst (sysV_Stop (scripted [] full_path) spaced (boot [])) = None \<and>
   log (snd (sysV_Restart (scripted [] full_path) spaced (boot []))) =
     [(0, Exec ''/usr/sbin/service'' [''my svc; reboot $(id)'', ''stop'']), (2000000, Sleep 50000000),
      (52003000, Exec ''/usr/sbin/service'' [''my svc; reboot $(id)'', ''start''])]"
  using Restart_pause [of "scripted [] full_path" web "boot []"]
    Restart_pause [of "scripted [] full_path" spaced "boot []"]
  by (simp add: upstart_Restart_eq sysV_Restart_eq single_step run_eq sleep_eq
      Millisecond_def hosts)

text \<open>
  C10 as stated does not hold for every string: a name that holds a NUL byte cannot be
  an argument of a process.  Start hands \<^verbatim>\<open>os/exec\<close> the vector with the name in it,
  \<^verbatim>\<open>os/exec\<close> refuses it, no process is started, so no tool receives the name, and
  Start returns the error \<^verbatim>\<open>fork/exec /usr/sbin/service: invalid argument\<close> wrapped.
\<close>

theorem NUL_name_starts_nothing:
  "log (snd (Start kernel (sysV nul_name) (boot []))) =
     [(0, Exec ''/usr/sbin/service'' [[CHR ''a'', CHR 0x00, CHR ''b''], ''start''])] \<and>
   fst (Start kernel (sysV nul_name) (boot [])) =
     Some (Wrapf (ExecFailure ''fork/exec /usr/sbin/service: invalid argument'')
       ''/usr/sbin/service command failed'') \<and>
   world (snd (Start kernel (sysV nul_name) (boot []))) = []"
  by (simp add: sysV_Start_def run_eq kernel_def has_NUL_def nul_name_def boot_def)

text \<open>
  C10, amended.  Whatever the name is (spaces and shell metacharacters included), every
  control operation calls \<^verbatim>\<open>os/exec\<close> on the resolved tool of the handle itself, with
  no shell in between, on a vector of two arguments in which the name is one whole
  element, character for character:
  Start on \<^verbatim>\<open>[start, name]\<close> (SysV: \<^verbatim>\<open>[name, start]\<close>),
  Stop on \<^verbatim>\<open>[stop, name]\<close> (SysV: \<^verbatim>\<open>[name, stop]\<close>),
  Restart on \<^verbatim>\<open>[restart, name]\<close> for systemd, on the stop vector and then the start
  vector for upstart, and for SysV on the stop vector and then, when the stop returned
  no error, the start vector.  Start and Stop make exactly that one call; what they
  return and the state of the host they leave are the answer of the host to that
  program and that vector, so a process that the host starts receives the name unsplit
  and unchanged.  The name in the handle is the string given to \<open>New\<close>.  (A name with
  a NUL byte is handed over in the same way; it is the host that starts no process
  for it.)
\<close>

theorem name_passed_verbatim:
  "Start os h s =
     (map_option (\<lambda>e. Wrapf e (cmd (fields h) @ '' command failed''))
        (p_err (fst (os_exec os (world s) (cmd (fields h))
           (case h of sysV u \<Rightarrow> [name u, ''start''] | systemd u \<Rightarrow> [''start'', name u]
            | upstart u \<Rightarrow> [''start'', name u])))),
      \<lparr>world = snd (os_exec os (world s) (cmd (fields h))
           (case h of sysV u \<Rightarrow> [name u, ''start''] | systemd u \<Rightarrow> [''start'', name u]
            | upstart u \<Rightarrow> [''start'', name u])),
       now = now s + p_elapsed (fst (os_exec os (world s) (cmd (fields h))
           (case h of sysV u \<Rightarrow> [name u, ''start''] | systemd u \<Rightarrow> [''start'', name u]
            | upstart u \<Rightarrow> [''start'', name u]))),
       log = log s @ [(now s, Exec (cmd (fields h))
           (case h of sysV u \<Rightarrow> [name u, ''start''] | systemd u \<Rightarrow> [''start'', name u]
            | upstart u \<Rightarrow> [''start'', name u]))]\<rparr>) \<and>
   Stop os h s =
     (map_option (\<lambda>e. Wrapf e (cmd (fields h) @ '' command failed''))
        (p_err (fst (os_exec os (world s) (cmd (fields h))
           (case h of sysV u \<Rightarrow> [name u, ''stop''] | systemd u \<Rightarrow> [''stop'', name u]
            | upstart u \<Rightarrow> [''stop'', name u])))),
      \<lparr>world = snd (os_exec os (world s) (cmd (fields h))
           (case h of sysV u \<Rightarrow> [name u, ''stop''] | systemd u \<Rightarrow> [''stop'', name u]
            | upstart u \<Rightarrow> [''stop'', name u])),
       now = now s + p_elapsed (fst (os_exec os (world s) (cmd (fields h))
           (case h of sysV u \<Rightarrow> [name u, ''stop''] | systemd u \<Rightarrow> [''stop'', name u]
            | upstart u \<Rightarrow> [''stop'', name u]))),
       log = log s @ [(now s, Exec (cmd (fields h))
           (case h of sysV u \<Rightarrow> [name u, ''stop''] | systemd u \<Rightarrow> [''stop'', name u]
            | upstart u \<Rightarrow> [''stop'', name u]))]\<rparr>) \<and>
   spawned (log (snd (Restart os h s))) =
     spawned (log s) @
       (case h of
          systemd u \<Rightarrow> [(cmd u, [''restart'', name u])]
        | upstart u \<Rightarrow> [(cmd u, [''stop'', name u]), (cmd u, [''start'', name u])]
        | sysV u \<Rightarrow>
            (cmd u, [name u, ''stop'']) #
              (if fst (sysV_Stop os u s) = None then [(cmd u, [name u, ''start''])] else [])) \<and>
   (\<forall>h'. fst (New os n s) = Inr h' \<longrightarrow> name (fields h') = n)"
proof (intro conjI allI impI)
  show "Start os h s =
     (map_option (\<lambda>e. Wrapf e (cmd (fields h) @ '' command failed''))
        (p_err (fst (os_exec os (world s) (cmd (fields h))
           (case h of sysV u \<Rightarrow> [name u, ''start''] | systemd u \<Rightarrow> [''start'', name u]
            | upstart u \<Rightarrow> [''start'', name u])))),
      \<lparr>world = snd (os_exec os (world s) (cmd (fields h))
           (case h of sysV u \<Rightarrow> [name u, ''start''] | systemd u \<Rightarrow> [''start'', name u]
            | upstart u \<Rightarrow> [''start'', name u])),
       now = now s + p_elapsed (fst (os_exec os (world s) (cmd (fields h))
           (case h of sysV u \<Rightarrow> [name u, ''start''] | systemd u \<Rightarrow> [''start'', name u]
            | upstart u \<Rightarrow> [''start'', name u]))),
       log = log s @ [(now s, Exec (cmd (fields h))
           (case h of sysV u \<Rightarrow> [name u, ''start''] | systemd u \<Rightarrow> [''start'', name u]
            | upstart u \<Rightarrow> [''start'', name u]))]\<rparr>)"
    by (cases h) (simp_all add: single_step run_eq)
  show "Stop os h s =
     (map_option (\<lambda>e. Wrapf e (cmd (fields h) @ '' command failed''))
        (p_err (fst (os_exec os (world s) (cmd (fields h))
           (case h of sysV u \<Rightarrow> [name u, ''stop''] | systemd u \<Rightarrow> [''stop'', name u]
            | upstart u \<Rightarrow> [''stop'', name u])))),
      \<lparr>world = snd (os_exec os (world s) (cmd (fields h))
           (case h of sysV u \<Rightarrow> [name u, ''stop''] | systemd u \<Rightarrow> [''stop'', name u]
            | upstart u \<Rightarrow> [''stop'', name u])),
       now = now s + p_elapsed (fst (os_exec os (world s) (cmd (fields h))
           (case h of sysV u \<Rightarrow> [name u, ''stop''] | systemd u \<Rightarrow> [''stop'', name u]
            | upstart u \<Rightarrow> [''stop'', name u]))),
       log = log s @ [(now s, Exec (cmd (fields h))
           (case h of sysV u \<Rightarrow> [name u, ''stop''] | systemd u \<Rightarrow> [''stop'', name u]
            | upstart u \<Rightarrow> [''stop'', name u]))]\<rparr>)"
    by (cases h) (simp_all add: single_step run_eq)
  show "spawned (log (snd (Restart os h s))) =
     spawned (log s) @
       (case h of
          systemd u \<Rightarrow> [(cmd u, [''restart'', name u])]
        | upstart u \<Rightarrow> [(cmd u, [''stop'', name u]), (cmd u, [''start'', name u])]
        | sysV u \<Rightarrow>
            (cmd u, [name u, ''stop'']) #
              (if fst (sysV_Stop os u s) = None then [(cmd u, [name u, ''start''])] else []))"
  proof (cases h)
    case (systemd u)
    then show ?thesis
      by (simp add: single_step run_eq spawned_append)
  next
    case (upstart u)
    then show ?thesis
      by (simp add: upstart_Restart_eq single_step run_eq sleep_eq spawned_append)
  next
    case (sysV u)
    then show ?thesis
      by (simp add: sysV_Restart_eq single_step run_eq sleep_eq spawned_append)
  qed
next
  fix h'
  assume "fst (New os n s) = Inr h'"
  then show "name (fields h') = n"
    by (auto simp add: New_def look_path_def split_beta split: if_splits sum.splits)
qed

text \<open>
  On the host that records what its processes receive: after Start, after Stop and
  after Restart on a SysV handle whose name holds spaces, a semicolon and a command
  substitution, the tool has received the name as one argument, as it was given to
  \<open>New\<close>.
\<close>

theorem name_passed_verbatim_witness:
  "fst (New (scripted [''/usr/sbin/service''] full_path) ''my svc; reboot $(id)'' (boot [])) =
     Inr (sysV spaced) \<and>
   world (snd (Start kernel (sysV spaced) (boot []))) =
     [(''/usr/sbin/service'', [''my svc; reboot $(id)'', ''start''])] \<and>
   world (snd (Stop kernel (sysV spaced) (boot []))) =
     [(''/usr/sbin/service'', [''my svc; reboot $(id)'', ''stop''])] \<and>
   world (snd (Restart kernel (sysV spaced) (boot []))) =
     [(''/usr/sbin/service'', [''my svc; reboot $(id)'', ''stop'']),
      (''/usr/sbin/service'', [''my svc; reboot $(id)'', ''start''])] \<and>
   spawned (log (snd (Restart kernel (sysV spaced) (boot [])))) =
     [(''/usr/sbin/service'', [''my svc; reboot $(id)'', ''stop'']),
      (''/usr/sbin/service'', [''my svc; reboot $(id)'', ''start''])]"
  using name_passed_verbatim [of kernel "sysV spaced" "boot []" "''my svc; reboot $(id)''"]
    name_passed_verbatim [of "scripted [''/usr/sbin/service''] full_path" "sysV spaced" "boot []"
      "''my svc; reboot $(id)''"]
  by (simp add: New_def isSystemd_eq isUpstart_def isSysV_eq stat_def look_path_def
      sysV_Restart_eq single_step run_eq sleep_eq kernel_def has_NUL_def hosts)

end
